theory Spec2Isabelle
  imports Main "HOL-Library.Word" "HOL-Library.Sublist"
begin

unbundle bit_operations_syntax

section \<open>Data model of frida-hosts.ts\<close>

text \<open>
  A rejected promise or a thrown exception is a value: \<open>Error msg\<close> for
  \<^verbatim>\<open>new Error(msg)\<close> (also the errors of the device bridge and of frida-js),
  \<open>TypeError msg\<close> for the engine's own error on a property read of \<^verbatim>\<open>undefined\<close>,
  \<open>WaitLoopError\<close> for the terminal error of \<^verbatim>\<open>waitUntil\<close>, whose message the
  sources at hand do not show. An asynchronous function returns \<open>error + 'a\<close>.
\<close>

datatype error = Error string | TypeError string | WaitLoopError

text \<open>The state of a host, \<^verbatim>\<open>FridaHost['state']\<close>.\<close>

datatype host_state = unavailable | setup_required | launch_required | available

text \<open>
  \<^verbatim>\<open>interface FridaTarget { id; name }\<close> and
  \<^verbatim>\<open>interface FridaHost { id; name; type; state; targets? }\<close>. The fields
  \<^verbatim>\<open>id\<close>, \<^verbatim>\<open>name\<close> and \<^verbatim>\<open>type\<close> carry the record's initial, as \<open>id\<close> is
  HOL's identity function; the optional \<^verbatim>\<open>targets\<close> is an option.
\<close>

record FridaTarget =
  t_id :: string
  t_name :: string

record FridaHost =
  h_id :: string
  h_name :: string
  h_type :: string
  state :: host_state
  targets :: "FridaTarget list option"

definition FRIDA_DEFAULT_PORT :: nat where
  "FRIDA_DEFAULT_PORT = 27042"

definition FRIDA_ALTERNATE_PORT :: nat where
  "FRIDA_ALTERNATE_PORT = 24072"

definition FRIDA_VERSION :: string where
  "FRIDA_VERSION = ''16.1.7''"

definition ANDROID_DEVICE_HTK_PATH :: string where
  "ANDROID_DEVICE_HTK_PATH = ''/data/local/tmp/.httptoolkit''"

definition FRIDA_BINARY_NAME :: string where
  "FRIDA_BINARY_NAME = ''adirf-server''"

definition FRIDA_BINARY_PATH :: string where
  "FRIDA_BINARY_PATH = ANDROID_DEVICE_HTK_PATH @ ''/'' @ FRIDA_BINARY_NAME"

text \<open>\<^verbatim>\<open>0o00111\<close>; a number under \<^verbatim>\<open>&\<close> is a 32-bit integer.\<close>

definition ALL_X_PERMS :: "32 word" where
  "ALL_X_PERMS = 73"

section \<open>The device bridge, as the code sees it\<close>

text \<open>
  A directory entry of \<^verbatim>\<open>deviceClient.readdir\<close>: the two fields the code reads.
\<close>

record dir_entry =
  entry_name :: string
  mode :: "32 word"

text \<open>
  Modelled from the spec: \<^verbatim>\<open>isProbablyRooted\<close> of android/adb-commands is not
  among the sources; by section 4.2 it is an opaque boolean and any underlying error
  is treated as false, never propagated. The field \<open>isProbablyRooted\<close> is that
  boolean. The other fields are what one device answers during one resolution of its
  state: the outcome of \<^verbatim>\<open>openTcp(port)\<close> (a connection handle, or the rejection),
  the outcome of \<^verbatim>\<open>readdir(path)\<close>, and which of the two port probes settles
  first, which the transport decides.
\<close>

record device =
  openTcp :: "nat \<Rightarrow> error + nat"
  readdir :: "string \<Rightarrow> error + dir_entry list"
  isProbablyRooted :: bool
  alternate_settles_first :: bool

text \<open>
  The calls a function makes on its collaborators, in the order it makes them. A trace
  is the list of these events; a function of the model returns its trace with its
  result.
\<close>

datatype event =
    OpenTcp nat
  | ConnIgnoreErrors nat
  | ConnEnd nat
  | Readdir string
  | RootCheck
  | GetProperties
  | DownloadFridaServer string string "string option"
  | Push string string nat
  | GetRootCommand
  | Shell "string list"
  | PipeToStdout
  | Delay nat
  | ConsoleLog error
  | FridaConnect nat
  | BuildScript string string nat
  | SpawnWithScript string string
  | EnumerateApplications
  | Disconnect

section \<open>Port prober and capability detector\<close>

text \<open>
  \<^verbatim>\<open>p.then(f)\<close> and \<^verbatim>\<open>p.catch(g)\<close> on settled outcomes: \<open>then\<close> runs its
  callback on a fulfilled promise and passes a rejection on; \<open>catch\<close> runs its
  callback on a rejection, also on one that comes out of the \<open>then\<close> before it.
\<close>

definition then_promise :: "error + 'a \<Rightarrow> ('a \<Rightarrow> event list \<times> (error + 'b)) \<Rightarrow> event list \<times> (error + 'b)" where
  "then_promise p f = (case p of Inl e \<Rightarrow> ([], Inl e) | Inr v \<Rightarrow> f v)"

definition catch_promise :: "event list \<times> (error + 'a) \<Rightarrow> (error \<Rightarrow> event list \<times> (error + 'a)) \<Rightarrow> event list \<times> (error + 'a)" where
  "catch_promise p g =
     (case snd p of Inl e \<Rightarrow> (fst p @ fst (g e), snd (g e)) | Inr v \<Rightarrow> p)"

text \<open>
  \<^verbatim>\<open>isFridaInstalled\<close>: \<^verbatim>\<open>readdir(...).then(entries => entries.some(...)).catch(() => false)\<close>.
\<close>

definition entry_is_frida :: "dir_entry \<Rightarrow> bool" where
  "entry_is_frida entry \<longleftrightarrow>
     entry_name entry = FRIDA_BINARY_NAME \<and> (mode entry AND ALL_X_PERMS) \<noteq> 0"

definition isFridaInstalled :: "device \<Rightarrow> event list \<times> (error + bool)" where
  "isFridaInstalled deviceClient =
     (let (t, r) =
        catch_promise
          (then_promise (readdir deviceClient ANDROID_DEVICE_HTK_PATH)
             (\<lambda>entries. ([], Inr (list_ex entry_is_frida entries))))
          (\<lambda>_. ([], Inr False))
      in (Readdir ANDROID_DEVICE_HTK_PATH # t, r))"

text \<open>
  \<^verbatim>\<open>isDevicePortOpen\<close>: \<^verbatim>\<open>openTcp(port).then(conn => { conn.on('error', () => {});
  conn.end(); return true; }).catch(() => false)\<close>. The call of \<^verbatim>\<open>openTcp\<close> is made
  when the function is called (\<open>port_probe_call\<close>); the rest runs when the connection
  attempt settles (\<open>port_probe_settle\<close>).
\<close>

definition port_probe_call :: "nat \<Rightarrow> event list" where
  "port_probe_call port = [OpenTcp port]"

definition port_probe_settle :: "device \<Rightarrow> nat \<Rightarrow> event list \<times> (error + bool)" where
  "port_probe_settle deviceClient port =
     catch_promise
       (then_promise (openTcp deviceClient port)
          (\<lambda>conn. ([ConnIgnoreErrors port, ConnEnd port], Inr True)))
       (\<lambda>_. ([], Inr False))"

definition isDevicePortOpen :: "device \<Rightarrow> nat \<Rightarrow> event list \<times> (error + bool)" where
  "isDevicePortOpen deviceClient port =
     (let (t, r) = port_probe_settle deviceClient port in (port_probe_call port @ t, r))"

section \<open>Host state resolver\<close>

text \<open>
  \<^verbatim>\<open>getHostStatus\<close>, on the device client \<^verbatim>\<open>adbClient.getDevice(deviceId)\<close>,
  which the caller passes in. \<^verbatim>\<open>Promise.all\<close> over the two probes: both calls are
  made, in the order of the array, before either result is looked at; the two
  continuations then run in the order in which the connection attempts settle; a
  rejection of a probe would reject the whole (of two rejections the model takes the
  one of the default port). The \<^verbatim>\<open>await\<close> of a rejected check would reject the
  function, so the result is \<open>error + FridaHost\<close>.
\<close>

definition both_port_probes :: "device \<Rightarrow> event list \<times> (error + bool \<times> bool)" where
  "both_port_probes deviceClient =
     (let (td, rd) = port_probe_settle deviceClient FRIDA_DEFAULT_PORT;
          (ta, ra) = port_probe_settle deviceClient FRIDA_ALTERNATE_PORT
      in (port_probe_call FRIDA_DEFAULT_PORT @ port_probe_call FRIDA_ALTERNATE_PORT @
            (if alternate_settles_first deviceClient then ta @ td else td @ ta),
          (case rd of Inl e \<Rightarrow> Inl e
           | Inr defaultPortOpen \<Rightarrow>
               (case ra of Inl e \<Rightarrow> Inl e
                | Inr alternatePortOpen \<Rightarrow> Inr (defaultPortOpen, alternatePortOpen)))))"

definition make_host :: "string \<Rightarrow> host_state \<Rightarrow> FridaHost" where
  "make_host deviceId st =
     \<lparr> h_id = deviceId, h_name = deviceId, h_type = ''android'', state = st, targets = None \<rparr>"

definition getHostStatus :: "device \<Rightarrow> string \<Rightarrow> event list \<times> (error + FridaHost)" where
  "getHostStatus deviceClient deviceId =
     (case both_port_probes deviceClient of
        (t0, Inl e) \<Rightarrow> (t0, Inl e)
      | (t0, Inr (defaultPortOpen, alternatePortOpen)) \<Rightarrow>
          if defaultPortOpen \<or> alternatePortOpen
          then (t0, Inr (make_host deviceId available))
          else (case isFridaInstalled deviceClient of
                  (t1, Inl e) \<Rightarrow> (t0 @ t1, Inl e)
                | (t1, Inr installed) \<Rightarrow>
                    if installed
                    then (t0 @ t1, Inr (make_host deviceId launch_required))
                    else if isProbablyRooted deviceClient
                    then (t0 @ t1 @ [RootCheck], Inr (make_host deviceId setup_required))
                    else (t0 @ t1 @ [RootCheck], Inr (make_host deviceId unavailable))))"

text \<open>
  \<^verbatim>\<open>getAndroidFridaHosts\<close>: one resolution per connected device, all awaited together;
  the hosts come back in the order of the devices, and a rejection rejects the whole (of
  several rejections \<open>promise_all\<close> takes the first in the order of the list).
  \<open>getConnectedDevices\<close> is the outcome of the device listing and \<open>getDevice\<close> the
  device behind an id. The resolutions of different devices overlap in time, so no
  trace is given for the whole.
\<close>

record adb =
  getConnectedDevices :: "error + string list"
  getDevice :: "string \<Rightarrow> device"

fun promise_all :: "(error + 'a) list \<Rightarrow> error + 'a list" where
  "promise_all [] = Inr []"
| "promise_all (Inl e # ps) = Inl e"
| "promise_all (Inr v # ps) = (case promise_all ps of Inl e \<Rightarrow> Inl e | Inr vs \<Rightarrow> Inr (v # vs))"

definition getAndroidFridaHosts :: "adb \<Rightarrow> error + FridaHost list" where
  "getAndroidFridaHosts adbClient =
     (case getConnectedDevices adbClient of
        Inl e \<Rightarrow> Inl e
      | Inr devices \<Rightarrow>
          promise_all (map (\<lambda>deviceId. snd (getHostStatus (getDevice adbClient deviceId) deviceId)) devices))"

section \<open>Install: \<^verbatim>\<open>setupAndroidHost\<close>\<close>

text \<open>
  A string is the list of its code units, for code units below 256. \<open>js_split\<close> is
  \<^verbatim>\<open>s.split(sep)\<close> for a separator of one code unit (the empty string splits into
  one empty piece), \<open>js_trim\<close> is \<^verbatim>\<open>s.trim()\<close> with the white space and line
  terminators of the language in that range (TAB, LF, VT, FF, CR, SP, NBSP), and
  \<open>js_join\<close> is \<^verbatim>\<open>xs.join(sep)\<close>.
\<close>

fun js_split :: "char \<Rightarrow> string \<Rightarrow> string list" where
  "js_split sep [] = [[]]"
| "js_split sep (c # cs) =
     (if c = sep then [] # js_split sep cs
      else (case js_split sep cs of [] \<Rightarrow> [[c]] | w # ws \<Rightarrow> (c # w) # ws))"

definition is_white_space :: "char \<Rightarrow> bool" where
  "is_white_space c \<longleftrightarrow>
     c \<in> set [CHR 0x09, CHR 0x0A, CHR 0x0B, CHR 0x0C, CHR 0x0D, CHR 0x20, CHR 0xA0]"

definition js_trim :: "string \<Rightarrow> string" where
  "js_trim s = rev (dropWhile is_white_space (rev (dropWhile is_white_space s)))"

fun js_join :: "string \<Rightarrow> string list \<Rightarrow> string" where
  "js_join sep [] = []"
| "js_join sep [x] = x"
| "js_join sep (x # y # ys) = x @ sep @ js_join sep (y # ys)"

text \<open>
  \<^verbatim>\<open>ABI_ARCH_MAP\<close>, in the order of its keys. \<^verbatim>\<open>Object.keys(ABI_ARCH_MAP)\<close> is
  the list of the keys and \<^verbatim>\<open>ABI_ARCH_MAP[abi]\<close> the lookup, \<^verbatim>\<open>undefined\<close>
  (\<open>None\<close>) on a string that is no key.
\<close>

definition ABI_ARCH_MAP :: "(string \<times> string) list" where
  "ABI_ARCH_MAP =
     [(''arm64-v8a'', ''arm64''),
      (''armeabi'', ''arm''),
      (''armabi-v7a'', ''arm''),
      (''x86'', ''x86''),
      (''x86_64'', ''x86_64'')]"

definition known_abi :: "string \<Rightarrow> bool" where
  "known_abi abi \<longleftrightarrow> abi \<in> set (map fst ABI_ARCH_MAP)"

text \<open>
  What the collaborators answer during one install: the device's properties (or the
  rejection of \<^verbatim>\<open>getProperties\<close>), the stream that \<^verbatim>\<open>FridaJs.downloadFridaServer\<close>
  gives for a version, a platform and an architecture, and the outcome of
  \<^verbatim>\<open>push(stream, path, mode)\<close>.
\<close>

record install_io =
  getProperties :: "error + (string \<rightharpoonup> string)"
  downloadFridaServer :: "string \<Rightarrow> string \<Rightarrow> string option \<Rightarrow> error + string"
  push :: "string \<Rightarrow> string \<Rightarrow> nat \<Rightarrow> error + unit"

text \<open>
  \<^verbatim>\<open>(props['ro.product.cpu.abilist']?.split(',') ?? [props['ro.product.cpu.abi']])
  .map(abi => abi.trim())\<close>: with neither property, the array holds \<^verbatim>\<open>undefined\<close>
  and \<^verbatim>\<open>trim\<close> on it throws.
\<close>

definition supportedAbis :: "(string \<rightharpoonup> string) \<Rightarrow> error + string list" where
  "supportedAbis deviceProperties =
     (case deviceProperties ''ro.product.cpu.abilist'' of
        Some abilist \<Rightarrow> Inr (map js_trim (js_split CHR '','' abilist))
      | None \<Rightarrow>
          (case deviceProperties ''ro.product.cpu.abi'' of
             Some abi \<Rightarrow> Inr [js_trim abi]
           | None \<Rightarrow> Inl (TypeError ''Cannot read properties of undefined (reading 'trim')'')))"

text \<open>
  \<^verbatim>\<open>supportedAbis.find(abi => Object.keys(ABI_ARCH_MAP).includes(abi))\<close>; the test
  \<^verbatim>\<open>!firstKnownAbi\<close> holds for \<^verbatim>\<open>undefined\<close> and for the empty string.
\<close>

definition firstKnownAbi :: "string list \<Rightarrow> string option" where
  "firstKnownAbi abis = List.find known_abi abis"

definition no_abi_error :: "string list \<Rightarrow> error" where
  "no_abi_error abis = Error (''Did not recognize any device ABIs from '' @ js_join '','' abis)"

definition setupAndroidHost :: "install_io \<Rightarrow> event list \<times> (error + unit)" where
  "setupAndroidHost deviceClient =
     (case getProperties deviceClient of
        Inl e \<Rightarrow> ([GetProperties], Inl e)
      | Inr deviceProperties \<Rightarrow>
          (case supportedAbis deviceProperties of
             Inl e \<Rightarrow> ([GetProperties], Inl e)
           | Inr abis \<Rightarrow>
               (case firstKnownAbi abis of
                  None \<Rightarrow> ([GetProperties], Inl (no_abi_error abis))
                | Some abi \<Rightarrow>
                    if abi = [] then ([GetProperties], Inl (no_abi_error abis))
                    else
                      let deviceArch = map_of ABI_ARCH_MAP abi in
                      (case downloadFridaServer deviceClient FRIDA_VERSION ''android'' deviceArch of
                         Inl e \<Rightarrow>
                           ([GetProperties, DownloadFridaServer FRIDA_VERSION ''android'' deviceArch],
                            Inl e)
                       | Inr serverStream \<Rightarrow>
                           ([GetProperties, DownloadFridaServer FRIDA_VERSION ''android'' deviceArch,
                             Push serverStream FRIDA_BINARY_PATH 365],
                            push deviceClient serverStream FRIDA_BINARY_PATH 365)))))"

section \<open>Launch: \<^verbatim>\<open>launchAndroidHost\<close> and the readiness poller\<close>

text \<open>
  Modelled from the spec: \<^verbatim>\<open>waitUntil\<close> of util/promise is not among the sources.
  By section 4.5 it takes an interval, a maximum attempt count and a probe, and invokes
  the probe repeatedly, sleeping the interval between attempts, until the probe returns
  true or the attempt budget is exhausted; an error raised by the probe in one attempt
  is logged and counts as not ready; exhausting the budget raises a terminal error.
  The probe is given by attempt number, as the device may answer differently each
  time; \<open>waitUntil_from k\<close> is the loop from attempt \<open>k\<close> on, with \<open>tries\<close> attempts
  left.
\<close>

fun waitUntil_from ::
  "nat \<Rightarrow> nat \<Rightarrow> nat \<Rightarrow> (nat \<Rightarrow> event list \<times> (error + bool)) \<Rightarrow> event list \<times> (error + unit)" where
  "waitUntil_from k delayMs 0 test = ([], Inl WaitLoopError)"
| "waitUntil_from k delayMs (Suc tries) test =
     (let (t, r) = test k;
          t' = (case r of Inl e \<Rightarrow> t @ [ConsoleLog e] | Inr _ \<Rightarrow> t)
      in if r = Inr True then (t', Inr ())
         else if tries = 0 then (t', Inl WaitLoopError)
         else (let (t'', r'') = waitUntil_from (Suc k) delayMs tries test
               in (t' @ [Delay delayMs] @ t'', r'')))"

definition waitUntil ::
  "nat \<Rightarrow> nat \<Rightarrow> (nat \<Rightarrow> event list \<times> (error + bool)) \<Rightarrow> event list \<times> (error + unit)" where
  "waitUntil delayMs tries test = waitUntil_from 0 delayMs tries test"

text \<open>
  What the collaborators answer during one launch: the outcome of
  \<^verbatim>\<open>getRootCommand\<close> of android/adb-commands (a function that wraps a command to
  run it as root, \<^verbatim>\<open>undefined\<close>, or a rejection), the outcome of
  \<^verbatim>\<open>deviceClient.shell(command)\<close>, and the device as the status check of attempt
  \<open>k\<close> finds it. The source guards the status check with \<^verbatim>\<open>try\<close> and
  \<^verbatim>\<open>catch\<close>: \<open>status_rejects k\<close> is the error with which the status check of
  attempt \<open>k\<close> rejects, if it does (the calls of a check that rejects are left out
  of the trace).
\<close>

record launch_io =
  getRootCommand :: "error + (string list \<Rightarrow> string list) option"
  shell :: "string list \<Rightarrow> error + unit"
  device_at :: "nat \<Rightarrow> device"
  status_rejects :: "nat \<Rightarrow> error option"

definition status_check :: "launch_io \<Rightarrow> string \<Rightarrow> nat \<Rightarrow> event list \<times> (error + FridaHost)" where
  "status_check deviceClient hostId k =
     (case status_rejects deviceClient k of
        Some e \<Rightarrow> ([], Inl e)
      | None \<Rightarrow> getHostStatus (device_at deviceClient k) hostId)"

text \<open>
  The probe that \<^verbatim>\<open>launchAndroidHost\<close> hands to \<^verbatim>\<open>waitUntil\<close>:
  \<^verbatim>\<open>try { return (await getHostStatus(..)).state === 'available' }
  catch (e) { console.log(e.message ?? e); return false }\<close>, on the outcome of the
  status check.
\<close>

definition launch_probe :: "event list \<times> (error + FridaHost) \<Rightarrow> event list \<times> (error + bool)" where
  "launch_probe status =
     (case snd status of
        Inl e \<Rightarrow> (fst status @ [ConsoleLog e], Inr False)
      | Inr host \<Rightarrow> (fst status, Inr (state host = available)))"

text \<open>
  \<^verbatim>\<open>new Error(`Failed to launch Frida server for ${hostId}`)\<close>: a message, and no
  cause.
\<close>

definition launch_failed :: "string \<Rightarrow> error" where
  "launch_failed hostId = Error (''Failed to launch Frida server for '' @ hostId)"

definition launchAndroidHost :: "launch_io \<Rightarrow> string \<Rightarrow> event list \<times> (error + unit)" where
  "launchAndroidHost deviceClient hostId =
     (case getRootCommand deviceClient of
        Inl e \<Rightarrow> ([GetRootCommand], Inl e)
      | Inr None \<Rightarrow>
          ([GetRootCommand], Inl (Error ''Couldn't get root access to launch Frida Server''))
      | Inr (Some runAsRoot) \<Rightarrow>
          let command = runAsRoot [FRIDA_BINARY_PATH, ''-l'', ''127.0.0.1:24072''] in
          (case shell deviceClient command of
             Inl e \<Rightarrow> ([GetRootCommand, Shell command], Inl e)
           | Inr _ \<Rightarrow>
               (case waitUntil 500 10 (\<lambda>k. launch_probe (status_check deviceClient hostId k)) of
                  (t, Inl e) \<Rightarrow>
                    ([GetRootCommand, Shell command, PipeToStdout] @ t @ [ConsoleLog e],
                     Inl (launch_failed hostId))
                | (t, Inr _) \<Rightarrow>
                    ([GetRootCommand, Shell command, PipeToStdout] @ t, Inr ()))))"

section \<open>Intercept: \<^verbatim>\<open>interceptAndroidFridaTarget\<close>\<close>

text \<open>
  What the collaborators answer during one intercept: the device's tunnels, the outcome
  of \<^verbatim>\<open>FridaJs.connect\<close> on a tunnel, of \<^verbatim>\<open>buildAndroidFridaScript\<close> of
  frida-scripts on a certificate, a proxy host and a proxy port, and of
  \<^verbatim>\<open>spawnWithScript\<close> on an application and a script.
\<close>

record intercept_io =
  tunnels :: device
  connect :: "nat \<Rightarrow> error + unit"
  buildAndroidFridaScript :: "string \<Rightarrow> string \<Rightarrow> nat \<Rightarrow> error + string"
  spawnWithScript :: "string \<Rightarrow> string \<Rightarrow> error + unit"

text \<open>\<^verbatim>\<open>openTcp(FRIDA_ALTERNATE_PORT).catch(() => openTcp(FRIDA_DEFAULT_PORT))\<close>.\<close>

definition open_frida_stream :: "device \<Rightarrow> event list \<times> (error + nat)" where
  "open_frida_stream deviceClient =
     catch_promise
       ([OpenTcp FRIDA_ALTERNATE_PORT], openTcp deviceClient FRIDA_ALTERNATE_PORT)
       (\<lambda>_. ([OpenTcp FRIDA_DEFAULT_PORT], openTcp deviceClient FRIDA_DEFAULT_PORT))"

definition interceptAndroidFridaTarget ::
  "intercept_io \<Rightarrow> string \<Rightarrow> string \<Rightarrow> nat \<Rightarrow> event list \<times> (error + unit)" where
  "interceptAndroidFridaTarget io appId caCertContent proxyPort =
     (case open_frida_stream (tunnels io) of
        (t, Inl e) \<Rightarrow> (t, Inl e)
      | (t, Inr fridaStream) \<Rightarrow>
          (case connect io fridaStream of
             Inl e \<Rightarrow> (t @ [FridaConnect fridaStream], Inl e)
           | Inr _ \<Rightarrow>
               (case buildAndroidFridaScript io caCertContent ''10.0.0.102'' proxyPort of
                  Inl e \<Rightarrow>
                    (t @ [FridaConnect fridaStream,
                          BuildScript caCertContent ''10.0.0.102'' proxyPort], Inl e)
                | Inr script \<Rightarrow>
                    (t @ [FridaConnect fridaStream,
                          BuildScript caCertContent ''10.0.0.102'' proxyPort,
                          SpawnWithScript appId script],
                     spawnWithScript io appId script))))"

section \<open>The interceptor: \<^verbatim>\<open>FridaAndroidInterceptor\<close>\<close>

text \<open>
  \<^verbatim>\<open>activate(proxyPort, options)\<close>. The type of \<^verbatim>\<open>options\<close> admits three actions,
  but the last branch reads \<^verbatim>\<open>(options as any).action ?? '(none)'\<close>: at run time
  the action is any string, or absent. The world of the interceptor gives, for a host
  id, what the collaborators answer in each of the three operations, and the
  certificate of the configuration.
\<close>

record activate_options =
  action :: "string option"
  hostId :: string
  targetId :: string

record world =
  install_of :: "string \<Rightarrow> install_io"
  launch_of :: "string \<Rightarrow> launch_io"
  intercept_of :: "string \<Rightarrow> intercept_io"
  certContent :: string

definition unknown_command :: "string option \<Rightarrow> error" where
  "unknown_command a =
     Error (''Unknown Frida interception command: '' @
            (case a of None \<Rightarrow> ''(none)'' | Some s \<Rightarrow> s))"

definition activate :: "world \<Rightarrow> nat \<Rightarrow> activate_options \<Rightarrow> event list \<times> (error + unit)" where
  "activate w proxyPort options =
     (if action options = Some ''setup'' then
        setupAndroidHost (install_of w (hostId options))
      else if action options = Some ''launch'' then
        launchAndroidHost (launch_of w (hostId options)) (hostId options)
      else if action options = Some ''intercept'' then
        interceptAndroidFridaTarget (intercept_of w (hostId options))
          (targetId options) (certContent w) proxyPort
      else ([], Inl (unknown_command (action options))))"

text \<open>
  \<^verbatim>\<open>getFridaHosts\<close> and its one-slot cache \<^verbatim>\<open>_fridaTargetsPromise\<close>. The run time
  is one thread of control, so the life of the interceptor is a sequence of steps that
  do not overlap: \<open>Call c\<close> is a call of \<^verbatim>\<open>getFridaHosts\<close> by caller \<open>c\<close>, run up to
  its \<^verbatim>\<open>await\<close>; \<open>Settle k r\<close> is the settling of lookup number \<open>k\<close> with outcome
  \<open>r\<close>, when its \<^verbatim>\<open>finally\<close> callback runs and the callers that await its promise
  get \<open>r\<close>. The state holds the slot (the number of the lookup whose promise it
  stores), how many times \<^verbatim>\<open>getAndroidFridaHosts\<close> was started, the lookups started
  and not yet settled, who awaits which lookup, and what each caller got.
\<close>

record 'c interceptor =
  fridaTargetsPromise :: "nat option"
  lookups_started :: nat
  in_flight :: "nat list"
  awaiting :: "('c \<times> nat) list"
  returned :: "('c \<times> (error + FridaHost list)) list"

datatype 'c cache_step = Call 'c | Settle nat "error + FridaHost list"

definition new_interceptor :: "'c interceptor" where
  "new_interceptor =
     \<lparr> fridaTargetsPromise = None, lookups_started = 0, in_flight = [], awaiting = [],
       returned = [] \<rparr>"

text \<open>
  The call, up to \<^verbatim>\<open>await this._fridaTargetsPromise\<close>: with an empty slot it starts
  \<^verbatim>\<open>getAndroidFridaHosts\<close> and stores the promise; in both cases it then awaits the
  promise in the slot.
\<close>

definition getFridaHosts :: "'c interceptor \<Rightarrow> 'c \<Rightarrow> 'c interceptor" where
  "getFridaHosts s c =
     (case fridaTargetsPromise s of
        None \<Rightarrow>
          let k = lookups_started s in
          s\<lparr> fridaTargetsPromise := Some k, lookups_started := Suc k,
             in_flight := in_flight s @ [k], awaiting := awaiting s @ [(c, k)] \<rparr>
      | Some k \<Rightarrow> s\<lparr> awaiting := awaiting s @ [(c, k)] \<rparr>)"

text \<open>
  Lookup \<open>k\<close> settles with \<open>r\<close>: \<^verbatim>\<open>.finally(() => { this._fridaTargetsPromise =
  undefined; })\<close> empties the slot, whatever it holds, and every caller awaiting
  lookup \<open>k\<close> returns \<open>r\<close> (the hosts, or the rejection).
\<close>

definition lookup_settled :: "'c interceptor \<Rightarrow> nat \<Rightarrow> error + FridaHost list \<Rightarrow> 'c interceptor" where
  "lookup_settled s k r =
     s\<lparr> fridaTargetsPromise := None,
        in_flight := removeAll k (in_flight s),
        awaiting := filter (\<lambda>(c, j). j \<noteq> k) (awaiting s),
        returned := returned s @ map (\<lambda>(c, j). (c, r)) (filter (\<lambda>(c, j). j = k) (awaiting s)) \<rparr>"

text \<open>One step; only a lookup that is in flight can settle.\<close>

fun step :: "'c interceptor \<Rightarrow> 'c cache_step \<Rightarrow> 'c interceptor" where
  "step s (Call c) = getFridaHosts s c"
| "step s (Settle k r) = (if k \<in> set (in_flight s) then lookup_settled s k r else s)"

definition run :: "'c interceptor \<Rightarrow> 'c cache_step list \<Rightarrow> 'c interceptor" where
  "run s steps = foldl step s steps"

section \<open>Observations used to state the properties\<close>

text \<open>
  A port of a device is open when the connection attempt succeeds; the server binary is
  present when the directory can be read and holds an executable entry of its name.
\<close>

definition port_open :: "device \<Rightarrow> nat \<Rightarrow> bool" where
  "port_open deviceClient port \<longleftrightarrow> \<not> isl (openTcp deviceClient port)"

definition frida_binary_present :: "device \<Rightarrow> bool" where
  "frida_binary_present deviceClient \<longleftrightarrow>
     (case readdir deviceClient ANDROID_DEVICE_HTK_PATH of
        Inl _ \<Rightarrow> False
      | Inr entries \<Rightarrow> list_ex entry_is_frida entries)"

text \<open>
  The events of the two port probes after their calls, in the order in which the
  connection attempts settle.
\<close>

definition probes_settle_events :: "device \<Rightarrow> event list" where
  "probes_settle_events d =
     (if alternate_settles_first d
      then fst (port_probe_settle d FRIDA_ALTERNATE_PORT) @ fst (port_probe_settle d FRIDA_DEFAULT_PORT)
      else fst (port_probe_settle d FRIDA_DEFAULT_PORT) @ fst (port_probe_settle d FRIDA_ALTERNATE_PORT))"


text \<open>
  The invariant of the cache: an empty slot has no lookup in flight and nobody waiting;
  a full slot holds the one lookup in flight, and everybody waiting awaits it.
\<close>

definition cache_ok :: "'c interceptor \<Rightarrow> bool" where
  "cache_ok s \<longleftrightarrow>
     (case fridaTargetsPromise s of
        None \<Rightarrow> in_flight s = [] \<and> awaiting s = []
      | Some k \<Rightarrow>
          in_flight s = [k] \<and> k < lookups_started s \<and> (\<forall>(c, j) \<in> set (awaiting s). j = k))"

section \<open>Example devices\<close>

text \<open>
  A device with nothing listening, no readable directory and no root; the same device
  rooted; with the server binary installed (mode \<^verbatim>\<open>0o100755\<close>); and with a server
  listening on the alternate port.
\<close>

definition closed_device :: device where
  "closed_device =
     \<lparr> openTcp = (\<lambda>port. Inl (Error ''closed'')),
       readdir = (\<lambda>path. Inl (Error ''No such file or directory'')),
       isProbablyRooted = False,
       alternate_settles_first = False \<rparr>"

definition rooted_device :: device where
  "rooted_device = closed_device\<lparr> isProbablyRooted := True \<rparr>"

definition installed_device :: device where
  "installed_device =
     rooted_device\<lparr> readdir := (\<lambda>path.
        if path = ''/data/local/tmp/.httptoolkit''
        then Inr [\<lparr> entry_name = ''adirf-server'', mode = 33261 \<rparr>]
        else Inl (Error ''No such file or directory'')) \<rparr>"

definition running_device :: device where
  "running_device =
     installed_device\<lparr> openTcp := (\<lambda>port. if port = 24072 then Inr 1 else Inl (Error ''closed'')) \<rparr>"

definition two_devices :: adb where
  "two_devices =
     \<lparr> getConnectedDevices = Inr [''emulator-5554'', ''R58M123ABC''],
       getDevice = (\<lambda>deviceId. if deviceId = ''emulator-5554'' then running_device else closed_device) \<rparr>"

text \<open>
  Three devices at install time, by the property they report, with a download and a
  push that succeed.
\<close>

definition install_device :: "(string \<rightharpoonup> string) \<Rightarrow> install_io" where
  "install_device props =
     \<lparr> getProperties = Inr props,
       downloadFridaServer = (\<lambda>version platform arch. Inr ''frida-server''),
       push = (\<lambda>stream path perms. Inr ()) \<rparr>"

definition mips_arm64_props :: "string \<rightharpoonup> string" where
  "mips_arm64_props = [''ro.product.cpu.abilist'' \<mapsto> ''mips,arm64-v8a'']"

definition x86_arm64_props :: "string \<rightharpoonup> string" where
  "x86_arm64_props = [''ro.product.cpu.abilist'' \<mapsto> ''x86,arm64-v8a'']"

definition arm64_x86_props :: "string \<rightharpoonup> string" where
  "arm64_x86_props = [''ro.product.cpu.abilist'' \<mapsto> ''arm64-v8a,x86'']"

definition mips_riscv_props :: "string \<rightharpoonup> string" where
  "mips_riscv_props = [''ro.product.cpu.abilist'' \<mapsto> ''mips, riscv64'']"

definition armv7_props :: "string \<rightharpoonup> string" where
  "armv7_props = [''ro.product.cpu.abi'' \<mapsto> ''armeabi-v7a'']"

text \<open>A launch on a rooted device whose server never starts to listen.\<close>

definition stuck_launch :: launch_io where
  "stuck_launch =
     \<lparr> getRootCommand = Inr (Some (\<lambda>command. [''su'', ''-c''] @ command)),
       shell = (\<lambda>command. Inr ()),
       device_at = (\<lambda>k. installed_device),
       status_rejects = (\<lambda>k. None) \<rparr>"


text \<open>A world for \<open>activate\<close>, and options with an action that is none of the three.\<close>

definition some_world :: world where
  "some_world =
     \<lparr> install_of = (\<lambda>h. install_device mips_arm64_props),
       launch_of = (\<lambda>h. stuck_launch),
       intercept_of = (\<lambda>h.
         \<lparr> tunnels = running_device,
           connect = (\<lambda>stream. Inr ()),
           buildAndroidFridaScript = (\<lambda>cert proxyHost proxyPort. Inr ''script''),
           spawnWithScript = (\<lambda>appId script. Inr ()) \<rparr>),
       certContent = ''CERT'' \<rparr>"

definition teardown_options :: activate_options where
  "teardown_options = \<lparr> action = Some ''teardown'', hostId = ''emulator-5554'', targetId = [] \<rparr>"

section \<open>The checks of the resolver\<close>

lemma port_probe_settle_eq:
  "port_probe_settle d p =
     (if port_open d p then ([ConnIgnoreErrors p, ConnEnd p], Inr True) else ([], Inr False))"
  by (simp add: port_probe_settle_def then_promise_def catch_promise_def port_open_def
      split: sum.splits)

lemma isDevicePortOpen_eq:
  "isDevicePortOpen d p =
     (if port_open d p then ([OpenTcp p, ConnIgnoreErrors p, ConnEnd p], Inr True)
      else ([OpenTcp p], Inr False))"
  by (simp add: isDevicePortOpen_def port_probe_settle_eq port_probe_call_def)

lemma isFridaInstalled_eq:
  "isFridaInstalled d = ([Readdir ANDROID_DEVICE_HTK_PATH], Inr (frida_binary_present d))"
  by (simp add: isFridaInstalled_def then_promise_def catch_promise_def frida_binary_present_def
      split: sum.splits)

lemma both_port_probes_eq:
  "both_port_probes d =
     ([OpenTcp FRIDA_DEFAULT_PORT, OpenTcp FRIDA_ALTERNATE_PORT] @ probes_settle_events d,
      Inr (port_open d FRIDA_DEFAULT_PORT, port_open d FRIDA_ALTERNATE_PORT))"
  by (simp add: both_port_probes_def port_probe_settle_eq port_probe_call_def
      probes_settle_events_def)

lemma getHostStatus_result:
  "snd (getHostStatus d deviceId) =
     Inr (make_host deviceId
       (if port_open d FRIDA_DEFAULT_PORT \<or> port_open d FRIDA_ALTERNATE_PORT then available
        else if frida_binary_present d then launch_required
        else if isProbablyRooted d then setup_required
        else unavailable))"
  by (simp add: getHostStatus_def both_port_probes_eq isFridaInstalled_eq)

lemma getHostStatus_events:
  "fst (getHostStatus d deviceId) =
     [OpenTcp FRIDA_DEFAULT_PORT, OpenTcp FRIDA_ALTERNATE_PORT] @ probes_settle_events d @
     (if port_open d FRIDA_DEFAULT_PORT \<or> port_open d FRIDA_ALTERNATE_PORT then []
      else Readdir ANDROID_DEVICE_HTK_PATH #
           (if frida_binary_present d then [] else [RootCheck]))"
  by (simp add: getHostStatus_def both_port_probes_eq isFridaInstalled_eq)

lemma probes_settle_events_set:
  "set (probes_settle_events d) \<subseteq>
     {ConnIgnoreErrors FRIDA_DEFAULT_PORT, ConnEnd FRIDA_DEFAULT_PORT,
      ConnIgnoreErrors FRIDA_ALTERNATE_PORT, ConnEnd FRIDA_ALTERNATE_PORT}"
  by (auto simp add: probes_settle_events_def port_probe_settle_eq)

lemma example_devices:
  "port_open running_device FRIDA_ALTERNATE_PORT"
  "\<not> port_open running_device FRIDA_DEFAULT_PORT"
  "\<not> port_open installed_device p" "frida_binary_present installed_device"
  "\<not> port_open rooted_device p" "\<not> frida_binary_present rooted_device"
  "isProbablyRooted rooted_device"
  "\<not> port_open closed_device p" "\<not> frida_binary_present closed_device"
  "\<not> isProbablyRooted closed_device"
  by (simp_all add: running_device_def installed_device_def rooted_device_def closed_device_def
      port_open_def frida_binary_present_def FRIDA_DEFAULT_PORT_def FRIDA_ALTERNATE_PORT_def
      ANDROID_DEVICE_HTK_PATH_def entry_is_frida_def FRIDA_BINARY_NAME_def ALL_X_PERMS_def)

text \<open>
  C7. The port probe never throws: whatever the device answers, \<open>isDevicePortOpen\<close>
  returns a boolean. When the connection opens, it registers the handler that ignores
  the connection's errors, ends the connection and returns true; when the connection
  attempt fails, with whatever error, it returns false and does nothing else.
\<close>

theorem isDevicePortOpen_never_throws:
  "(\<exists>b. snd (isDevicePortOpen deviceClient port) = Inr b) \<and>
   (\<forall>conn. openTcp deviceClient port = Inr conn \<longrightarrow>
      isDevicePortOpen deviceClient port =
        ([OpenTcp port, ConnIgnoreErrors port, ConnEnd port], Inr True)) \<and>
   (\<forall>e. openTcp deviceClient port = Inl e \<longrightarrow>
      isDevicePortOpen deviceClient port = ([OpenTcp port], Inr False))"
  by (auto simp add: isDevicePortOpen_eq port_open_def)

theorem isDevicePortOpen_never_throws_witness:
  "openTcp running_device 24072 = Inr 1 \<and>
   isDevicePortOpen running_device 24072 =
     ([OpenTcp 24072, ConnIgnoreErrors 24072, ConnEnd 24072], Inr True) \<and>
   openTcp running_device 27042 = Inl (Error ''closed'') \<and>
   isDevicePortOpen running_device 27042 = ([OpenTcp 27042], Inr False)"
  using isDevicePortOpen_never_throws [of running_device 24072]
    isDevicePortOpen_never_throws [of running_device 27042]
  by (simp add: running_device_def)

text \<open>
  C1. For every device, \<open>getHostStatus\<close> returns a host, and the state of that host
  is one of the four states, by fixed precedence: \<open>available\<close> if the default or the
  alternate port is open, whatever the other checks would say; else \<open>launch_required\<close>
  if the server binary is installed, rooted or not; else \<open>setup_required\<close> if the
  device is rooted; else \<open>unavailable\<close>. Open and installed are what the port probe
  and the installed check return.
\<close>

theorem getHostStatus_precedence:
  "(\<exists>h. snd (getHostStatus deviceClient deviceId) = Inr h \<and> h_id h = deviceId \<and>
        state h =
          (if port_open deviceClient FRIDA_DEFAULT_PORT \<or>
              port_open deviceClient FRIDA_ALTERNATE_PORT
           then available
           else if frida_binary_present deviceClient then launch_required
           else if isProbablyRooted deviceClient then setup_required
           else unavailable)) \<and>
   snd (getHostStatus deviceClient deviceId) =
     Inr (make_host deviceId
       (if port_open deviceClient FRIDA_DEFAULT_PORT \<or> port_open deviceClient FRIDA_ALTERNATE_PORT
        then available
        else if frida_binary_present deviceClient then launch_required
        else if isProbablyRooted deviceClient then setup_required
        else unavailable)) \<and>
   snd (isDevicePortOpen deviceClient port) = Inr (port_open deviceClient port) \<and>
   snd (isFridaInstalled deviceClient) = Inr (frida_binary_present deviceClient)"
  by (simp add: getHostStatus_result isDevicePortOpen_eq isFridaInstalled_eq make_host_def)

theorem getHostStatus_precedence_witness:
  "snd (getHostStatus running_device ''emulator-5554'') =
     Inr \<lparr> h_id = ''emulator-5554'', h_name = ''emulator-5554'', h_type = ''android'',
           state = available, targets = None \<rparr> \<and>
   snd (getHostStatus installed_device ''emulator-5554'') =
     Inr \<lparr> h_id = ''emulator-5554'', h_name = ''emulator-5554'', h_type = ''android'',
           state = launch_required, targets = None \<rparr> \<and>
   snd (getHostStatus rooted_device ''emulator-5554'') =
     Inr \<lparr> h_id = ''emulator-5554'', h_name = ''emulator-5554'', h_type = ''android'',
           state = setup_required, targets = None \<rparr> \<and>
   snd (getHostStatus closed_device ''emulator-5554'') =
     Inr \<lparr> h_id = ''emulator-5554'', h_name = ''emulator-5554'', h_type = ''android'',
           state = unavailable, targets = None \<rparr>"
  using getHostStatus_precedence [of running_device "''emulator-5554''"]
    getHostStatus_precedence [of installed_device "''emulator-5554''"]
    getHostStatus_precedence [of rooted_device "''emulator-5554''"]
    getHostStatus_precedence [of closed_device "''emulator-5554''"]
  by (simp add: example_devices make_host_def)

text \<open>
  C6. In one resolution, the two port probes are both started before the result of
  either is used, the second whatever the first finds: the trace begins with the two
  \<open>OpenTcp\<close> calls. The installed check runs exactly when both probes returned false,
  and the root check exactly when, in addition, the installed check returned false; so
  a positive installed check never triggers the root check. The last conjunct gives the
  whole trace, with the order of the checks.
\<close>

theorem state_checks_gated:
  "take 2 (fst (getHostStatus deviceClient deviceId)) =
     [OpenTcp FRIDA_DEFAULT_PORT, OpenTcp FRIDA_ALTERNATE_PORT] \<and>
   (Readdir ANDROID_DEVICE_HTK_PATH \<in> set (fst (getHostStatus deviceClient deviceId)) \<longleftrightarrow>
      snd (isDevicePortOpen deviceClient FRIDA_DEFAULT_PORT) = Inr False \<and>
      snd (isDevicePortOpen deviceClient FRIDA_ALTERNATE_PORT) = Inr False) \<and>
   (RootCheck \<in> set (fst (getHostStatus deviceClient deviceId)) \<longleftrightarrow>
      snd (isDevicePortOpen deviceClient FRIDA_DEFAULT_PORT) = Inr False \<and>
      snd (isDevicePortOpen deviceClient FRIDA_ALTERNATE_PORT) = Inr False \<and>
      snd (isFridaInstalled deviceClient) = Inr False) \<and>
   fst (getHostStatus deviceClient deviceId) =
     [OpenTcp FRIDA_DEFAULT_PORT, OpenTcp FRIDA_ALTERNATE_PORT] @
     probes_settle_events deviceClient @
     (if snd (isDevicePortOpen deviceClient FRIDA_DEFAULT_PORT) = Inr True \<or>
         snd (isDevicePortOpen deviceClient FRIDA_ALTERNATE_PORT) = Inr True
      then []
      else Readdir ANDROID_DEVICE_HTK_PATH #
           (if snd (isFridaInstalled deviceClient) = Inr True then [] else [RootCheck]))"
proof -
  have no_check: "Readdir ANDROID_DEVICE_HTK_PATH \<notin> set (probes_settle_events deviceClient)"
    "RootCheck \<notin> set (probes_settle_events deviceClient)"
    using probes_settle_events_set [of deviceClient] by auto
  show ?thesis
    using no_check by (simp add: getHostStatus_events isDevicePortOpen_eq isFridaInstalled_eq)
qed

theorem state_checks_gated_witness:
  "fst (getHostStatus installed_device ''emulator-5554'') =
     [OpenTcp FRIDA_DEFAULT_PORT, OpenTcp FRIDA_ALTERNATE_PORT,
      Readdir ANDROID_DEVICE_HTK_PATH] \<and>
   fst (getHostStatus rooted_device ''emulator-5554'') =
     [OpenTcp FRIDA_DEFAULT_PORT, OpenTcp FRIDA_ALTERNATE_PORT,
      Readdir ANDROID_DEVICE_HTK_PATH, RootCheck] \<and>
   fst (getHostStatus running_device ''emulator-5554'') =
     [OpenTcp FRIDA_DEFAULT_PORT, OpenTcp FRIDA_ALTERNATE_PORT,
      ConnIgnoreErrors FRIDA_ALTERNATE_PORT, ConnEnd FRIDA_ALTERNATE_PORT]"
  using state_checks_gated [of installed_device "''emulator-5554''"]
    state_checks_gated [of rooted_device "''emulator-5554''"]
    state_checks_gated [of running_device "''emulator-5554''"]
  by (simp add: example_devices isDevicePortOpen_eq isFridaInstalled_eq probes_settle_events_def
      port_probe_settle_eq)

section \<open>Discovery\<close>

lemma promise_all_Inr: "promise_all (map (\<lambda>i. Inr (f i)) xs) = Inr (map f xs)"
  by (induction xs) simp_all

text \<open>
  C10. Whatever the devices answer, discovery returns one host per connected device, in
  order, and every host has its name equal to its id, the type \<open>android\<close> and no
  targets.
\<close>

theorem discovered_hosts_shape:
  assumes "getConnectedDevices adbClient = Inr devices"
  shows "\<exists>hosts. getAndroidFridaHosts adbClient = Inr hosts \<and> map h_id hosts = devices \<and>
           (\<forall>h \<in> set hosts. h_name h = h_id h \<and> h_type h = ''android'' \<and> targets h = None)"
  using assms
  by (auto simp add: getAndroidFridaHosts_def getHostStatus_result promise_all_Inr make_host_def
      comp_def)

theorem discovered_hosts_shape_witness:
  "\<exists>hosts. getAndroidFridaHosts two_devices = Inr hosts \<and>
     map h_id hosts = [''emulator-5554'', ''R58M123ABC''] \<and>
     (\<forall>h \<in> set hosts. h_name h = h_id h \<and> h_type h = ''android'' \<and> targets h = None)"
  by (rule discovered_hosts_shape) (simp add: two_devices_def)

section \<open>Install\<close>

lemma known_abi_iff:
  "known_abi abi \<longleftrightarrow>
     abi = ''arm64-v8a'' \<or> abi = ''armeabi'' \<or> abi = ''armabi-v7a'' \<or> abi = ''x86'' \<or>
     abi = ''x86_64''"
  by (auto simp add: known_abi_def ABI_ARCH_MAP_def)

lemma known_abi_nonempty: "known_abi abi \<Longrightarrow> abi \<noteq> []"
  by (auto simp add: known_abi_iff)

lemma known_abi_arch: "known_abi abi \<Longrightarrow> \<exists>arch. map_of ABI_ARCH_MAP abi = Some arch"
  by (auto simp add: known_abi_iff ABI_ARCH_MAP_def)

lemma firstKnownAbi_skip:
  "\<forall>u \<in> set skipped. \<not> known_abi u \<Longrightarrow> known_abi abi \<Longrightarrow>
     firstKnownAbi (skipped @ abi # rest) = Some abi"
  by (induction skipped) (simp_all add: firstKnownAbi_def)

lemma firstKnownAbi_none:
  "\<forall>u \<in> set abis. \<not> known_abi u \<Longrightarrow> firstKnownAbi abis = None"
  by (simp add: firstKnownAbi_def find_None_iff)

lemma setup_known:
  assumes "getProperties io = Inr props" and "supportedAbis props = Inr abis"
    and "firstKnownAbi abis = Some abi" and "known_abi abi"
    and "map_of ABI_ARCH_MAP abi = Some arch"
  shows "setupAndroidHost io =
     (case downloadFridaServer io FRIDA_VERSION ''android'' (Some arch) of
        Inl e \<Rightarrow> ([GetProperties, DownloadFridaServer FRIDA_VERSION ''android'' (Some arch)], Inl e)
      | Inr serverStream \<Rightarrow>
          ([GetProperties, DownloadFridaServer FRIDA_VERSION ''android'' (Some arch),
            Push serverStream FRIDA_BINARY_PATH 365],
           push io serverStream FRIDA_BINARY_PATH 365))"
  using assms known_abi_nonempty [of abi]
  by (simp add: setupAndroidHost_def split: sum.splits)

lemma setup_unknown:
  assumes "getProperties io = Inr props" and "supportedAbis props = Inr abis"
    and "\<forall>abi \<in> set abis. \<not> known_abi abi"
  shows "setupAndroidHost io =
     ([GetProperties],
      Inl (Error (''Did not recognize any device ABIs from '' @ js_join '','' abis)))"
  using assms by (simp add: setupAndroidHost_def firstKnownAbi_none no_abi_error_def)

lemma js_split_nonempty: "js_split sep s \<noteq> []"
  by (induction s) (simp_all split: list.splits)

lemma js_join_Cons: "xs \<noteq> [] \<Longrightarrow> js_join sep (x # xs) = x @ sep @ js_join sep xs"
  by (cases xs) simp_all

lemma js_join_head: "js_join sep ((c # w) # ws) = c # js_join sep (w # ws)"
  by (cases ws) simp_all

lemma js_join_split: "js_join [sep] (js_split sep s) = s"
proof (induction s)
  case Nil
  show ?case by simp
next
  case (Cons c cs)
  show ?case
  proof (cases "c = sep")
    case True
    then show ?thesis
      using Cons.IH by (simp add: js_join_Cons js_split_nonempty)
  next
    case False
    obtain w ws where parts: "js_split sep cs = w # ws"
      using js_split_nonempty [of sep cs] by (cases "js_split sep cs") simp_all
    with False Cons.IH show ?thesis
      by (simp add: js_join_head)
  qed
qed

lemma js_split_no_separator: "w \<in> set (js_split sep s) \<Longrightarrow> sep \<notin> set w"
proof (induction s arbitrary: w)
  case Nil
  then show ?case by simp
next
  case (Cons c cs)
  obtain v vs where parts: "js_split sep cs = v # vs"
    using js_split_nonempty [of sep cs] by (cases "js_split sep cs") simp_all
  from Cons.IH [of v] parts have v: "sep \<notin> set v"
    by simp
  show ?case
  proof (cases "c = sep")
    case True
    with Cons show ?thesis by auto
  next
    case False
    with Cons.prems parts have "w = c # v \<or> w \<in> set (js_split sep cs)"
      by auto
    with False v Cons.IH show ?thesis
      by auto
  qed
qed

lemma supportedAbis_abilist:
  "props ''ro.product.cpu.abilist'' = Some abilist \<Longrightarrow>
     supportedAbis props = Inr (map js_trim (js_split CHR '','' abilist))"
  by (simp add: supportedAbis_def)

lemma supportedAbis_abi:
  "props ''ro.product.cpu.abilist'' = None \<Longrightarrow> supportedAbis props = Inr abis \<Longrightarrow>
     \<exists>abi. props ''ro.product.cpu.abi'' = Some abi \<and> abis = [js_trim abi]"
  by (auto simp add: supportedAbis_def split: option.splits)

lemma example_abis:
  "supportedAbis mips_arm64_props = Inr [''mips'', ''arm64-v8a'']"
  "supportedAbis x86_arm64_props = Inr [''x86'', ''arm64-v8a'']"
  "supportedAbis arm64_x86_props = Inr [''arm64-v8a'', ''x86'']"
  "supportedAbis mips_riscv_props = Inr [''mips'', ''riscv64'']"
  "supportedAbis armv7_props = Inr [''armeabi-v7a'']"
  by (simp_all add: mips_arm64_props_def x86_arm64_props_def arm64_x86_props_def
      mips_riscv_props_def armv7_props_def supportedAbis_def js_trim_def is_white_space_def)

text \<open>
  C3. The list of ABIs is what the device reports: the pieces of its property
  \<open>ro.product.cpu.abilist\<close> between the commas, in their order and trimmed (the
  pieces hold no comma and, joined by commas, give the property back), or else its one
  property \<open>ro.product.cpu.abi\<close>, trimmed. When this list holds a recognized ABI,
  install takes the first recognized one in the order of the list, skipping the
  unrecognized entries before it, and asks for the server binary of the architecture
  that \<open>ABI_ARCH_MAP\<close> gives for it (then pushes what it got). In particular a device
  that reports \<open>mips,arm64-v8a\<close> gets the architecture \<open>arm64\<close>.
\<close>

theorem install_first_recognized_abi:
  assumes "getProperties io = Inr props" and "supportedAbis props = Inr abis"
    and "\<exists>abi \<in> set abis. known_abi abi"
  shows "(\<exists>skipped abi rest arch.
            abis = skipped @ abi # rest \<and> (\<forall>u \<in> set skipped. \<not> known_abi u) \<and> known_abi abi \<and>
            map_of ABI_ARCH_MAP abi = Some arch \<and>
            setupAndroidHost io =
              (case downloadFridaServer io FRIDA_VERSION ''android'' (Some arch) of
                 Inl e \<Rightarrow>
                   ([GetProperties, DownloadFridaServer FRIDA_VERSION ''android'' (Some arch)],
                    Inl e)
               | Inr serverStream \<Rightarrow>
                   ([GetProperties, DownloadFridaServer FRIDA_VERSION ''android'' (Some arch),
                     Push serverStream FRIDA_BINARY_PATH 365],
                    push io serverStream FRIDA_BINARY_PATH 365))) \<and>
         (abis = [''mips'', ''arm64-v8a''] \<longrightarrow>
            take 2 (fst (setupAndroidHost io)) =
              [GetProperties, DownloadFridaServer FRIDA_VERSION ''android'' (Some ''arm64'')]) \<and>
         (\<forall>abilist. props ''ro.product.cpu.abilist'' = Some abilist \<longrightarrow>
            abis = map js_trim (js_split CHR '','' abilist) \<and>
            js_join '','' (js_split CHR '','' abilist) = abilist \<and>
            (\<forall>w \<in> set (js_split CHR '','' abilist). CHR '','' \<notin> set w)) \<and>
         (props ''ro.product.cpu.abilist'' = None \<longrightarrow>
            (\<exists>abi. props ''ro.product.cpu.abi'' = Some abi \<and> abis = [js_trim abi])) \<and>
         (props ''ro.product.cpu.abilist'' = Some ''mips,arm64-v8a'' \<longrightarrow>
            take 2 (fst (setupAndroidHost io)) =
              [GetProperties, DownloadFridaServer FRIDA_VERSION ''android'' (Some ''arm64'')])"
proof (intro conjI impI allI ballI)
  from assms(3) obtain skipped abi rest where
    parts: "abis = skipped @ abi # rest" "known_abi abi" "\<forall>u \<in> set skipped. \<not> known_abi u"
    by (rule split_list_first_propE)
  from parts(2) obtain arch where arch: "map_of ABI_ARCH_MAP abi = Some arch"
    using known_abi_arch by blast
  have "firstKnownAbi abis = Some abi"
    using parts by (simp add: firstKnownAbi_skip)
  from setup_known [OF assms(1,2) this parts(2) arch] parts arch
  show "\<exists>skipped abi rest arch.
            abis = skipped @ abi # rest \<and> (\<forall>u \<in> set skipped. \<not> known_abi u) \<and> known_abi abi \<and>
            map_of ABI_ARCH_MAP abi = Some arch \<and>
            setupAndroidHost io =
              (case downloadFridaServer io FRIDA_VERSION ''android'' (Some arch) of
                 Inl e \<Rightarrow>
                   ([GetProperties, DownloadFridaServer FRIDA_VERSION ''android'' (Some arch)],
                    Inl e)
               | Inr serverStream \<Rightarrow>
                   ([GetProperties, DownloadFridaServer FRIDA_VERSION ''android'' (Some arch),
                     Push serverStream FRIDA_BINARY_PATH 365],
                    push io serverStream FRIDA_BINARY_PATH 365))"
    by blast
next
  have mips_arm64: "take 2 (fst (setupAndroidHost io)) =
          [GetProperties, DownloadFridaServer FRIDA_VERSION ''android'' (Some ''arm64'')]"
    if abis: "abis = [''mips'', ''arm64-v8a'']"
  proof -
    have first: "firstKnownAbi abis = Some ''arm64-v8a''"
      using firstKnownAbi_skip [of "[''mips'']" "''arm64-v8a''" "[]"]
      by (simp add: abis known_abi_iff)
    have "known_abi ''arm64-v8a''" and "map_of ABI_ARCH_MAP ''arm64-v8a'' = Some ''arm64''"
      by (simp_all add: known_abi_iff ABI_ARCH_MAP_def)
    from setup_known [OF assms(1,2) first this] show ?thesis
      by (simp split: sum.splits)
  qed
  {
    assume "abis = [''mips'', ''arm64-v8a'']"
    then show "take 2 (fst (setupAndroidHost io)) =
          [GetProperties, DownloadFridaServer FRIDA_VERSION ''android'' (Some ''arm64'')]"
      by (rule mips_arm64)
  next
    assume "props ''ro.product.cpu.abilist'' = Some ''mips,arm64-v8a''"
    with assms(2) have "abis = [''mips'', ''arm64-v8a'']"
      by (simp add: supportedAbis_def js_trim_def is_white_space_def)
    then show "take 2 (fst (setupAndroidHost io)) =
          [GetProperties, DownloadFridaServer FRIDA_VERSION ''android'' (Some ''arm64'')]"
      by (rule mips_arm64)
  }
next
  fix abilist
  assume "props ''ro.product.cpu.abilist'' = Some abilist"
  with assms(2) show "abis = map js_trim (js_split CHR '','' abilist)"
    by (simp add: supportedAbis_abilist)
next
  fix abilist
  show "js_join '','' (js_split CHR '','' abilist) = abilist"
    by (rule js_join_split)
next
  fix abilist w
  assume "w \<in> set (js_split CHR '','' abilist)"
  then show "CHR '','' \<notin> set w"
    by (rule js_split_no_separator)
next
  assume "props ''ro.product.cpu.abilist'' = None"
  then show "\<exists>abi. props ''ro.product.cpu.abi'' = Some abi \<and> abis = [js_trim abi]"
    using assms(2) by (rule supportedAbis_abi)
qed

theorem install_first_recognized_abi_witness:
  "setupAndroidHost (install_device mips_arm64_props) =
     ([GetProperties, DownloadFridaServer ''16.1.7'' ''android'' (Some ''arm64''),
       Push ''frida-server'' ''/data/local/tmp/.httptoolkit/adirf-server'' 365], Inr ()) \<and>
   setupAndroidHost (install_device x86_arm64_props) =
     ([GetProperties, DownloadFridaServer ''16.1.7'' ''android'' (Some ''x86''),
       Push ''frida-server'' ''/data/local/tmp/.httptoolkit/adirf-server'' 365], Inr ()) \<and>
   setupAndroidHost (install_device arm64_x86_props) =
     ([GetProperties, DownloadFridaServer ''16.1.7'' ''android'' (Some ''arm64''),
       Push ''frida-server'' ''/data/local/tmp/.httptoolkit/adirf-server'' 365], Inr ())"
proof -
  have known: "\<exists>abi \<in> set [''mips'', ''arm64-v8a'']. known_abi abi"
    by (simp add: known_abi_iff)
  have reported: "getProperties (install_device mips_arm64_props) = Inr mips_arm64_props"
    by (simp add: install_device_def)
  note install_first_recognized_abi [OF reported example_abis(1) known]
  then have "take 2 (fst (setupAndroidHost (install_device mips_arm64_props))) =
      [GetProperties, DownloadFridaServer FRIDA_VERSION ''android'' (Some ''arm64'')]"
    by blast
  then show ?thesis
    by (simp add: setupAndroidHost_def install_device_def example_abis firstKnownAbi_def
        known_abi_iff ABI_ARCH_MAP_def FRIDA_VERSION_def FRIDA_BINARY_PATH_def
        ANDROID_DEVICE_HTK_PATH_def FRIDA_BINARY_NAME_def)
qed

text \<open>
  C4. When the device reports only unrecognized ABIs, install fails with the error that
  names the list of ABIs, and it has asked the device for its properties and done
  nothing else: no download, no push, no architecture guessed.
\<close>

theorem install_unrecognized_abis_fail:
  assumes "getProperties io = Inr props" and "supportedAbis props = Inr abis"
    and "\<forall>abi \<in> set abis. \<not> known_abi abi"
  shows "setupAndroidHost io =
     ([GetProperties],
      Inl (Error (''Did not recognize any device ABIs from '' @ js_join '','' abis)))"
  using assms by (rule setup_unknown)

theorem install_unrecognized_abis_fail_witness:
  "setupAndroidHost (install_device mips_riscv_props) =
     ([GetProperties], Inl (Error ''Did not recognize any device ABIs from mips,riscv64''))"
  using install_unrecognized_abis_fail
    [of "install_device mips_riscv_props" mips_riscv_props "[''mips'', ''riscv64'']"]
  by (simp add: install_device_def example_abis known_abi_iff)

text \<open>
  C9. \<open>ABI_ARCH_MAP\<close> recognizes the five strings \<open>arm64-v8a\<close>, \<open>armeabi\<close>,
  \<open>armabi-v7a\<close>, \<open>x86\<close> and \<open>x86_64\<close> and no other; the standard spelling
  \<open>armeabi-v7a\<close> has no architecture in it. So on a device whose list of ABIs is
  exactly \<open>[armeabi-v7a]\<close>, install fails with the error for unrecognized ABIs.
\<close>

theorem install_armeabi_v7a_unrecognized:
  assumes "getProperties io = Inr props" and "supportedAbis props = Inr [''armeabi-v7a'']"
  shows "setupAndroidHost io =
           ([GetProperties], Inl (Error ''Did not recognize any device ABIs from armeabi-v7a'')) \<and>
         map_of ABI_ARCH_MAP ''armeabi-v7a'' = None \<and>
         (\<forall>abi. known_abi abi \<longleftrightarrow>
            abi \<in> {''arm64-v8a'', ''armeabi'', ''armabi-v7a'', ''x86'', ''x86_64''})"
  using setup_unknown [OF assms]
  by (simp add: known_abi_iff ABI_ARCH_MAP_def)

theorem install_armeabi_v7a_unrecognized_witness:
  "setupAndroidHost (install_device armv7_props) =
     ([GetProperties], Inl (Error ''Did not recognize any device ABIs from armeabi-v7a''))"
  using install_armeabi_v7a_unrecognized [of "install_device armv7_props" armv7_props]
  by (simp add: install_device_def example_abis)

section \<open>Activate\<close>

lemma setup_trace_nonempty: "fst (setupAndroidHost io) \<noteq> []"
  by (simp add: setupAndroidHost_def Let_def split: sum.splits option.splits)

lemma launch_trace_nonempty: "fst (launchAndroidHost io h) \<noteq> []"
  by (simp add: launchAndroidHost_def Let_def split: sum.splits option.splits prod.splits)

lemma intercept_trace_nonempty: "fst (interceptAndroidFridaTarget io a c p) \<noteq> []"
  by (auto simp add: interceptAndroidFridaTarget_def open_frida_stream_def catch_promise_def
      split: sum.splits prod.splits)

text \<open>
  C8. When the action of the options is none of \<open>setup\<close>, \<open>launch\<close> and \<open>intercept\<close>
  (or is absent), \<open>activate\<close> rejects with the unknown-command error that names the
  action, and its trace is empty: it has called no collaborator. Each of the three
  operations of the pipeline makes at least one call, so none of them was invoked.
\<close>

theorem activate_unknown_action:
  assumes "action options \<noteq> Some ''setup''" and "action options \<noteq> Some ''launch''"
    and "action options \<noteq> Some ''intercept''"
  shows "activate w proxyPort options =
           ([], Inl (Error (''Unknown Frida interception command: '' @
                            (case action options of None \<Rightarrow> ''(none)'' | Some a \<Rightarrow> a)))) \<and>
         fst (setupAndroidHost io1) \<noteq> [] \<and> fst (launchAndroidHost io2 h) \<noteq> [] \<and>
         fst (interceptAndroidFridaTarget io3 a c p) \<noteq> []"
  using assms setup_trace_nonempty launch_trace_nonempty intercept_trace_nonempty
  by (simp add: activate_def unknown_command_def)

theorem activate_unknown_action_witness:
  "activate some_world 8000 teardown_options =
     ([], Inl (Error ''Unknown Frida interception command: teardown''))"
  using activate_unknown_action [of teardown_options some_world 8000]
  by (simp add: teardown_options_def)

section \<open>Launch\<close>











section \<open>The discovery cache\<close>

lemma cache_ok_new: "cache_ok new_interceptor"
  by (simp add: cache_ok_def new_interceptor_def)

lemma cache_ok_step: "cache_ok s \<Longrightarrow> cache_ok (step s x)"
  by (cases x)
     (auto simp add: cache_ok_def getFridaHosts_def lookup_settled_def Let_def filter_empty_conv
       split: option.splits)

lemma cache_ok_run: "cache_ok s \<Longrightarrow> cache_ok (run s steps)"
  unfolding run_def by (induction steps arbitrary: s) (simp_all add: cache_ok_step)

lemma calls_join:
  "fridaTargetsPromise s = Some k \<Longrightarrow>
     run s (map Call callers) = s\<lparr> awaiting := awaiting s @ map (\<lambda>c. (c, k)) callers \<rparr>"
  unfolding run_def
  by (induction callers arbitrary: s) (simp_all add: getFridaHosts_def)

lemma calls_start_one:
  assumes "fridaTargetsPromise s = None" and "callers \<noteq> []"
  shows "run s (map Call callers) =
           s\<lparr> fridaTargetsPromise := Some (lookups_started s),
              lookups_started := Suc (lookups_started s),
              in_flight := in_flight s @ [lookups_started s],
              awaiting := awaiting s @ map (\<lambda>c. (c, lookups_started s)) callers \<rparr>"
proof (cases callers)
  case Nil
  with assms show ?thesis by simp
next
  case (Cons c cs)
  have first: "getFridaHosts s c =
      s\<lparr> fridaTargetsPromise := Some (lookups_started s),
         lookups_started := Suc (lookups_started s),
         in_flight := in_flight s @ [lookups_started s],
         awaiting := awaiting s @ [(c, lookups_started s)] \<rparr>"
    using assms(1) by (simp add: getFridaHosts_def Let_def)
  have "run s (map Call callers) = run (getFridaHosts s c) (map Call cs)"
    by (simp add: Cons run_def)
  also have "\<dots> = (getFridaHosts s c)
      \<lparr> awaiting := awaiting (getFridaHosts s c) @ map (\<lambda>c. (c, lookups_started s)) cs \<rparr>"
    by (rule calls_join) (simp add: first)
  finally show ?thesis
    by (simp add: first Cons)
qed

text \<open>
  C2. In every state the interceptor can reach, at most one lookup is in flight. From a
  state with no lookup in flight, any number of calls (at least one) with no settling
  in between start exactly one lookup; when it settles with outcome \<open>r\<close>, hosts or
  rejection, each of these callers returns \<open>r\<close> and nobody else returns anything; the
  slot is then empty, and the next call starts a new lookup.
\<close>

theorem single_flight_discovery:
  fixes steps :: "'c cache_step list" and callers :: "'c list"
    and r :: "error + FridaHost list" and c' :: 'c
  shows "length (in_flight (run new_interceptor steps)) \<le> 1 \<and>
         (in_flight (run new_interceptor steps) = [] \<and> callers \<noteq> [] \<longrightarrow>
            (let s = run new_interceptor steps;
                 k = lookups_started s;
                 s1 = run s (map Call callers);
                 s2 = step s1 (Settle k r);
                 s3 = step s2 (Call c')
             in lookups_started s1 = Suc k \<and> in_flight s1 = [k] \<and>
                returned s1 = returned s \<and>
                returned s2 = returned s @ map (\<lambda>c. (c, r)) callers \<and>
                fridaTargetsPromise s2 = None \<and> in_flight s2 = [] \<and>
                lookups_started s2 = Suc k \<and>
                lookups_started s3 = Suc (Suc k) \<and> in_flight s3 = [Suc k] \<and>
                fridaTargetsPromise s3 = Some (Suc k)))"
proof -
  define s where "s = run (new_interceptor :: 'c interceptor) steps"
  have ok: "cache_ok s"
    unfolding s_def by (rule cache_ok_run) (rule cache_ok_new)
  have one: "length (in_flight s) \<le> 1"
    using ok by (simp add: cache_ok_def split: option.splits)
  have rest: "let k = lookups_started s;
                 s1 = run s (map Call callers);
                 s2 = step s1 (Settle k r);
                 s3 = step s2 (Call c')
             in lookups_started s1 = Suc k \<and> in_flight s1 = [k] \<and>
                returned s1 = returned s \<and>
                returned s2 = returned s @ map (\<lambda>c. (c, r)) callers \<and>
                fridaTargetsPromise s2 = None \<and> in_flight s2 = [] \<and>
                lookups_started s2 = Suc k \<and>
                lookups_started s3 = Suc (Suc k) \<and> in_flight s3 = [Suc k] \<and>
                fridaTargetsPromise s3 = Some (Suc k)"
    if idle: "in_flight s = []" and some: "callers \<noteq> []"
  proof -
    from ok idle have slot: "fridaTargetsPromise s = None" and nobody: "awaiting s = []"
      by (simp_all add: cache_ok_def split: option.splits)
    have waiters: "filter (\<lambda>(c, j). j = lookups_started s)
                     (map (\<lambda>c. (c, lookups_started s)) callers) =
                   map (\<lambda>c. (c, lookups_started s)) callers"
      by (induction callers) simp_all
    show ?thesis
      unfolding Let_def calls_start_one [OF slot some]
      by (simp add: idle nobody lookup_settled_def getFridaHosts_def waiters comp_def)
  qed
  show ?thesis
    using one rest unfolding s_def Let_def by blast
qed

theorem single_flight_discovery_witness:
  "returned (step (run new_interceptor (map Call [1, 2, 3 :: nat]))
               (Settle 0 (Inl (Error ''adb down'')))) =
     [(1, Inl (Error ''adb down'')), (2, Inl (Error ''adb down'')),
      (3, Inl (Error ''adb down''))]"
proof -
  have idle: "in_flight (run (new_interceptor :: nat interceptor) []) = []"
    by (simp add: run_def new_interceptor_def)
  from single_flight_discovery [of "[]" "[1, 2, 3 :: nat]" "Inl (Error ''adb down'')" 4] idle
  have "returned (step (run (run new_interceptor []) (map Call [1, 2, 3 :: nat]))
                   (Settle (lookups_started (run (new_interceptor :: nat interceptor) []))
                      (Inl (Error ''adb down'')))) =
          returned (run new_interceptor []) @ map (\<lambda>c. (c, Inl (Error ''adb down''))) [1, 2, 3]"
    unfolding Let_def by blast
  then show ?thesis
    by (simp add: run_def new_interceptor_def getFridaHosts_def lookup_settled_def Let_def)
qed

end
